theory Spec2Isabelle
  imports Complex_Main "HOL-Library.Multiset"
begin

section \<open>Collection naming\<close>

text \<open>
  Python's \<^verbatim>\<open>str.replace(old, new)\<close>: every non-overlapping occurrence of \<open>old\<close>,
  found from the left, is replaced by \<open>new\<close>. With an empty \<open>old\<close> Python puts
  \<open>new\<close> before every character and at the end. A string is the list of its
  characters.
\<close>

function replace :: "string \<Rightarrow> string \<Rightarrow> string \<Rightarrow> string" where
  "replace old new s =
     (if old = [] then new @ concat (map (\<lambda>c. c # new) s)
      else if s = [] then []
      else if take (length old) s = old then new @ replace old new (drop (length old) s)
      else hd s # replace old new (tl s))"
  by pat_completeness auto
termination
  by (relation "measure (\<lambda>(old, new, s). length s)") auto

declare replace.simps [simp del]

text \<open>
  \<^verbatim>\<open>
  def sanitize_filename_for_collection(filename: str) -> str:
      safe_name = filename.replace(" ", "_").replace(".", "_")
      return f"rag_{safe_name}"
  \<close>
\<close>

definition sanitize_filename_for_collection :: "string \<Rightarrow> string" where
  "sanitize_filename_for_collection filename =
     (let safe_name = replace ''.'' ''_'' (replace '' '' ''_'' filename)
      in ''rag_'' @ safe_name)"

text \<open>
  The naming rule in the specification's words: every space and every period becomes an
  underscore, and the constant prefix is put in front.
\<close>

definition spec_name :: "string \<Rightarrow> string" where
  "spec_name f =
     ''rag_'' @ map (\<lambda>c. if c = CHR '' '' \<or> c = CHR ''.'' then CHR ''_'' else c) f"

text \<open>The three characters that the naming rule cannot tell apart.\<close>

definition separator :: "char \<Rightarrow> bool" where
  "separator c \<longleftrightarrow> c = CHR '' '' \<or> c = CHR ''.'' \<or> c = CHR ''_''"


section \<open>Data model\<close>

text \<open>
  A Python exception is a value: \<open>Exception m\<close> is any exception whose \<^verbatim>\<open>str(e)\<close> is
  \<open>m\<close>, \<open>HTTPException status detail\<close> is FastAPI's.
\<close>

datatype exn = Exception string | HTTPException nat string

fun str_exn :: "exn \<Rightarrow> string" where
  "str_exn (Exception m) = m"
| "str_exn (HTTPException status detail) = detail"

text \<open>What a Python function hands back: \<^verbatim>\<open>None\<close> when it ends without a value.\<close>

datatype pyval = PyNone | PyInt int

text \<open>
  A metadata dictionary with string keys and values, in insertion order;
  \<^verbatim>\<open>d.get(k)\<close> is \<open>map_of d k\<close>. Every document that the ingestion stores
  carries the keys \<open>source\<close> and \<open>type\<close>.
\<close>

type_synonym metadata = "(string \<times> string) list"

text \<open>LangChain's \<^verbatim>\<open>Document(page_content=..., metadata=...)\<close>.\<close>

record document =
  page_content :: string
  metadata :: metadata

text \<open>
  The elements that \<^verbatim>\<open>partition\<close> yields, by the three branches of the ingestion loop:
  a \<^verbatim>\<open>Table\<close> with its \<^verbatim>\<open>metadata.text_as_html\<close>, an image with its
  \<^verbatim>\<open>metadata.image_path\<close>, and any other element with its \<^verbatim>\<open>text\<close>.
\<close>

datatype element = Table string | UnstructuredImage string | OtherElement string

text \<open>A stored vector: its identifier and the document it was made from.\<close>

record entry =
  entry_id :: string
  entry_document :: document

text \<open>The persistent vector store: collection name to the entries of that collection.\<close>

type_synonym vector_store = "string \<rightharpoonup> entry list"

text \<open>
  The files on disk and the vector store. A file is found under its path as the code
  spells it; the properties below follow one file through one spelling of its path.
\<close>

record world =
  fs :: "string \<rightharpoonup> string"
  vstore :: vector_store

text \<open>
  The external collaborators, none of which is code of the repository: the document
  partitioner (its elements, and the image files it extracts), the two language models,
  the text splitter, the cross-encoder (one score per query and candidate text), the
  similarity search of the vector store, the identifiers the store gives to new
  entries, and the faults of the store and of the disk. A fault of the disk is an
  \<^verbatim>\<open>OSError\<close>, given by its message: \<^verbatim>\<open>open(path, "wb")\<close> may fail, and then
  no file is made; the copy into the open file may fail after some bytes, whose number
  is given, and then the file is there with those bytes; \<^verbatim>\<open>os.remove(path)\<close>
  may fail, and then the file stays.
\<close>

record env =
  partition :: "string \<Rightarrow> string \<Rightarrow> exn + element list \<times> (string \<times> string) list"
  text_llm :: "string \<Rightarrow> string \<Rightarrow> exn + string"
  vision_llm :: "string \<Rightarrow> string \<Rightarrow> string \<Rightarrow> exn + string"
  split_text :: "nat \<Rightarrow> nat \<Rightarrow> string \<Rightarrow> string list"
  cross_encoder :: "string \<Rightarrow> string \<Rightarrow> real"
  similarity_search :: "entry list \<Rightarrow> string \<Rightarrow> nat \<Rightarrow> document list"
  uuid :: "entry list \<Rightarrow> nat \<Rightarrow> string"
  chroma_unavailable :: "exn option"
  chroma_write_error :: "exn option"
  fs_open_error :: "string \<Rightarrow> string option"
  fs_copy_error :: "string \<Rightarrow> (string \<times> nat) option"
  fs_remove_error :: "string \<Rightarrow> string option"

definition nl :: string where
  "nl = [CHR 0x0A]"

definition UPLOAD_DIRECTORY :: string where
  "UPLOAD_DIRECTORY = ''./uploaded_files''"

text \<open>\<^verbatim>\<open>os.path.join(a, b)\<close> on POSIX: an absolute \<open>b\<close> replaces \<open>a\<close>.\<close>

definition path_join :: "string \<Rightarrow> string \<Rightarrow> string" where
  "path_join a b =
     (if b \<noteq> [] \<and> hd b = CHR ''/'' then b
      else if a = [] \<or> last a = CHR ''/'' then a @ b
      else a @ ''/'' @ b)"

text \<open>\<^verbatim>\<open>sep.join(xs)\<close>.\<close>

fun join :: "string \<Rightarrow> string list \<Rightarrow> string" where
  "join sep [] = []"
| "join sep [x] = x"
| "join sep (x # y # ys) = x @ sep @ join sep (y # ys)"

section \<open>The vector store\<close>

definition collection_of :: "vector_store \<Rightarrow> string \<Rightarrow> entry list" where
  "collection_of vs collection_name = (case vs collection_name of None \<Rightarrow> [] | Some c \<Rightarrow> c)"

text \<open>
  \<^verbatim>\<open>Chroma(collection_name=..., persist_directory=...)\<close> opens the collection and
  creates it, empty, when there is none of that name.
\<close>

definition Chroma :: "env \<Rightarrow> vector_store \<Rightarrow> string \<Rightarrow> exn + vector_store" where
  "Chroma env vs collection_name =
     (case chroma_unavailable env of
        Some e \<Rightarrow> Inl e
      | None \<Rightarrow>
          Inr (case vs collection_name of
                 None \<Rightarrow> vs(collection_name \<mapsto> [])
               | Some c \<Rightarrow> vs))"

text \<open>\<^verbatim>\<open>vector_store.get(include=["metadatas"])\<close>: the lists \<^verbatim>\<open>ids\<close> and \<^verbatim>\<open>metadatas\<close>.\<close>

definition Chroma_get :: "vector_store \<Rightarrow> string \<Rightarrow> string list \<times> metadata list" where
  "Chroma_get vs collection_name =
     (map entry_id (collection_of vs collection_name),
      map (\<lambda>e. metadata (entry_document e)) (collection_of vs collection_name))"

text \<open>\<^verbatim>\<open>vector_store.delete(ids=...)\<close> removes the entries that carry one of the identifiers.\<close>

definition Chroma_delete :: "env \<Rightarrow> vector_store \<Rightarrow> string \<Rightarrow> string list \<Rightarrow> exn + vector_store" where
  "Chroma_delete env vs collection_name ids =
     (case chroma_write_error env of
        Some e \<Rightarrow> Inl e
      | None \<Rightarrow>
          Inr (vs(collection_name \<mapsto>
                 filter (\<lambda>e. entry_id e \<notin> set ids) (collection_of vs collection_name))))"

text \<open>\<^verbatim>\<open>vector_store.add_documents(docs)\<close> appends one entry per document, under a new identifier.\<close>

definition Chroma_add_documents ::
  "env \<Rightarrow> vector_store \<Rightarrow> string \<Rightarrow> document list \<Rightarrow> exn + vector_store" where
  "Chroma_add_documents env vs collection_name docs =
     (case chroma_write_error env of
        Some e \<Rightarrow> Inl e
      | None \<Rightarrow>
          (let c = collection_of vs collection_name
           in Inr (vs(collection_name \<mapsto>
                 c @ map (\<lambda>(i, d). \<lparr>entry_id = uuid env c i, entry_document = d\<rparr>)
                       (enumerate 0 docs)))))"

definition Chroma_persist :: "env \<Rightarrow> vector_store \<Rightarrow> exn + vector_store" where
  "Chroma_persist env vs = (case chroma_write_error env of Some e \<Rightarrow> Inl e | None \<Rightarrow> Inr vs)"

section \<open>Re-ranking\<close>

text \<open>
  \<^verbatim>\<open>xs.sort(key=key, reverse=True)\<close>. Python's sort is stable, and stays so with
  \<^verbatim>\<open>reverse=True\<close>: the list is reversed, sorted in ascending order by a stable sort,
  and reversed again.
\<close>

definition sort_reverse :: "('a \<Rightarrow> 'k::linorder) \<Rightarrow> 'a list \<Rightarrow> 'a list" where
  "sort_reverse key xs = rev (sort_key key (rev xs))"

text \<open>
  \<^verbatim>\<open>CROSS_ENCODER_MODEL.predict(pairs)\<close> of \<^verbatim>\<open>sentence_transformers.CrossEncoder\<close>.
  The call first looks at \<^verbatim>\<open>sentences[0]\<close>, to tell one pair from a list of pairs,
  so on an empty list it raises \<^verbatim>\<open>IndexError\<close>; otherwise it gives one score for
  each pair, in the order of the pairs. The scores are taken as real numbers, so a score
  that is not a number is left out of the model.
\<close>

definition predict :: "env \<Rightarrow> (string \<times> string) list \<Rightarrow> exn + real list" where
  "predict env pairs =
     (if pairs = [] then Inl (Exception ''list index out of range'')
      else Inr (map (\<lambda>(q, c). cross_encoder env q c) pairs))"

text \<open>
  \<^verbatim>\<open>
  def rerank_docs(inputs):
      query = inputs['question']
      docs = inputs['context']
      pairs = [[query, doc.page_content] for doc in docs]
      scores = CROSS_ENCODER_MODEL.predict(pairs)
      doc_scores = list(zip(docs, scores))
      doc_scores.sort(key=lambda x: x[1], reverse=True)
      return [doc for doc, score in doc_scores[:5]]
  \<close>
\<close>

definition rerank_docs :: "env \<Rightarrow> string \<Rightarrow> document list \<Rightarrow> exn + document list" where
  "rerank_docs env query docs =
     (let pairs = map (\<lambda>doc. (query, page_content doc)) docs
      in case predict env pairs of
           Inl e \<Rightarrow> Inl e
         | Inr scores \<Rightarrow>
             (let doc_scores = zip docs scores;
                  doc_scores = sort_reverse snd doc_scores
              in Inr (map fst (take 5 doc_scores))))"

text \<open>The cross-encoder score of a candidate for a query.\<close>

definition score_of :: "env \<Rightarrow> string \<Rightarrow> document \<Rightarrow> real" where
  "score_of env query doc = cross_encoder env query (page_content doc)"

section \<open>Deletion\<close>

text \<open>
  \<^verbatim>\<open>
  def delete_document_vectors(filename: str):
      collection_name = sanitize_filename_for_collection(filename)
      try:
          vector_store = Chroma(collection_name=collection_name, ...)
          all_docs = vector_store.get(include=["metadatas"])
          if not all_docs or not all_docs['ids']:
              return
          ids_to_delete = [
              doc_id for i, doc_id in enumerate(all_docs['ids'])
              if all_docs['metadatas'][i].get('source') == filename
          ]
          if ids_to_delete:
              vector_store.delete(ids=ids_to_delete)
              vector_store.persist()
          else:
              print(...)
      except Exception as e:
          print(...)
          # Depending on the desired behavior, you might want to raise this exception
          # For now, we'll just print it.
  \<close>
  Every path ends without a \<^verbatim>\<open>return\<close> value, and the handler only prints.
\<close>

definition ids_to_delete :: "string \<Rightarrow> string list \<Rightarrow> metadata list \<Rightarrow> string list" where
  "ids_to_delete filename ids metadatas =
     map snd (filter (\<lambda>(i, doc_id). map_of (metadatas ! i) ''source'' = Some filename)
                     (enumerate 0 ids))"

definition delete_document_vectors ::
  "env \<Rightarrow> string \<Rightarrow> vector_store \<Rightarrow> (exn + pyval) \<times> vector_store" where
  "delete_document_vectors env filename vs =
     (let collection_name = sanitize_filename_for_collection filename
      in case Chroma env vs collection_name of
           Inl e \<Rightarrow> (Inr PyNone, vs)
         | Inr vs1 \<Rightarrow>
             (let (ids, metadatas) = Chroma_get vs1 collection_name
              in if ids = [] then (Inr PyNone, vs1)
                 else
                   (let dels = ids_to_delete filename ids metadatas
                    in if dels \<noteq> [] then
                         (case Chroma_delete env vs1 collection_name dels of
                            Inl e \<Rightarrow> (Inr PyNone, vs1)
                          | Inr vs2 \<Rightarrow>
                              (case Chroma_persist env vs2 of
                                 Inl e \<Rightarrow> (Inr PyNone, vs2)
                               | Inr vs3 \<Rightarrow> (Inr PyNone, vs3)))
                       else (Inr PyNone, vs1))))"

text \<open>The \<^verbatim>\<open>source\<close> of a stored entry.\<close>

definition source_of :: "entry \<Rightarrow> string option" where
  "source_of e = map_of (metadata (entry_document e)) ''source''"

section \<open>Ingestion\<close>

definition sq :: string where
  "sq = [CHR 0x27]"

text \<open>
  \<^verbatim>\<open>
  def summarize_table(table_element: Table, api_key: str) -> str:
      table_html = table_element.metadata.text_as_html
      prompt = f"You are an expert at analyzing tables. ...\n\nTable:\n{table_html}"
      model = ChatGoogleGenerativeAI(model="gemini-1.5-flash", google_api_key=api_key)
      response = model.invoke(prompt)
      return response.content
  \<close>
\<close>

definition summarize_table :: "env \<Rightarrow> string \<Rightarrow> string \<Rightarrow> exn + string" where
  "summarize_table env table_html api_key =
     (let prompt = ''You are an expert at analyzing tables. Summarize the following HTML table. ''
            @ ''Describe its structure, columns, and a few example rows to capture its essence. ''
            @ ''This summary will be used for a retrieval system.'' @ nl @ nl
            @ ''Table:'' @ nl @ table_html
      in text_llm env api_key prompt)"

text \<open>
  \<^verbatim>\<open>get_image_description(image_bytes, api_key)\<close>: the vision model, asked with a fixed
  prompt; opening the bytes as an image is part of the call.
\<close>

definition get_image_description :: "env \<Rightarrow> string \<Rightarrow> string \<Rightarrow> exn + string" where
  "get_image_description env image_bytes api_key =
     (let prompt_text = ''You are an expert at analyzing documents. Provide a detailed, ''
            @ ''comprehensive description of this image, which was extracted from a document. ''
            @ ''Describe all objects, charts, graphs, and any text visible. This description ''
            @ ''will be used for a retrieval system, so be as descriptive as possible.''
      in vision_llm env api_key prompt_text image_bytes)"

text \<open>\<^verbatim>\<open>open(path, "rb").read()\<close>.\<close>

definition read_file :: "(string \<rightharpoonup> string) \<Rightarrow> string \<Rightarrow> exn + string" where
  "read_file files path =
     (case files path of
        None \<Rightarrow> Inl (Exception (''[Errno 2] No such file or directory: '' @ sq @ path @ sq))
      | Some bytes \<Rightarrow> Inr bytes)"

text \<open>The image branch of the loop, inside its \<^verbatim>\<open>try\<close>.\<close>

definition describe_image_file ::
  "env \<Rightarrow> (string \<rightharpoonup> string) \<Rightarrow> string \<Rightarrow> string \<Rightarrow> exn + string" where
  "describe_image_file env files image_path api_key =
     (case read_file files image_path of
        Inl e \<Rightarrow> Inl e
      | Inr img_bytes \<Rightarrow> get_image_description env img_bytes api_key)"

definition table_document :: "string \<Rightarrow> string \<Rightarrow> document" where
  "table_document filename summary =
     \<lparr>page_content = summary,
      metadata = [(''source'', filename), (''type'', ''table_summary'')]\<rparr>"

definition image_document :: "string \<Rightarrow> string \<Rightarrow> document" where
  "image_document image_path description =
     \<lparr>page_content = description,
      metadata = [(''source'', image_path), (''type'', ''image_description'')]\<rparr>"

definition text_document :: "string \<Rightarrow> string \<Rightarrow> document" where
  "text_document filename chunk =
     \<lparr>page_content = chunk, metadata = [(''source'', filename), (''type'', ''text'')]\<rparr>"

text \<open>
  The loop over the elements, with \<^verbatim>\<open>documents_to_embed\<close> and \<^verbatim>\<open>raw_text\<close> as
  its state:
  \<^verbatim>\<open>
  for element in elements:
      if isinstance(element, Table):
          summary = summarize_table(element, api_key)
          documents_to_embed.append(Document(page_content=summary,
              metadata={"source": filename, "type": "table_summary"}))
      elif isinstance(element, UnstructuredImage):
          try:
              with open(element.metadata.image_path, "rb") as img_file:
                  img_bytes = img_file.read()
              description = get_image_description(img_bytes, api_key)
              documents_to_embed.append(Document(page_content=description,
                  metadata={"source": element.metadata.image_path,
                            "type": "image_description"}))
          except Exception as e:
              print(f"Could not process image {element.metadata.image_path}: {e}")
      else:
          raw_text += element.text + "\n\n"
  \<close>
\<close>

fun process_elements ::
  "env \<Rightarrow> (string \<rightharpoonup> string) \<Rightarrow> string \<Rightarrow> string \<Rightarrow> element list \<Rightarrow>
   document list \<times> string \<Rightarrow> exn + document list \<times> string" where
  "process_elements env files filename api_key [] acc = Inr acc"
| "process_elements env files filename api_key (Table table_html # elements)
     (documents_to_embed, raw_text) =
     (case summarize_table env table_html api_key of
        Inl e \<Rightarrow> Inl e
      | Inr summary \<Rightarrow>
          process_elements env files filename api_key elements
            (documents_to_embed @ [table_document filename summary], raw_text))"
| "process_elements env files filename api_key (UnstructuredImage image_path # elements)
     (documents_to_embed, raw_text) =
     (case describe_image_file env files image_path api_key of
        Inl e \<Rightarrow>
          process_elements env files filename api_key elements (documents_to_embed, raw_text)
      | Inr description \<Rightarrow>
          process_elements env files filename api_key elements
            (documents_to_embed @ [image_document image_path description], raw_text))"
| "process_elements env files filename api_key (OtherElement text # elements)
     (documents_to_embed, raw_text) =
     process_elements env files filename api_key elements
       (documents_to_embed, raw_text @ text @ nl @ nl)"

text \<open>
  \<^verbatim>\<open>process_and_store_document(file_path, filename, api_key)\<close>: partition the file
  (the extracted images are written under the upload directory), run the loop, chunk
  the raw text with \<^verbatim>\<open>RecursiveCharacterTextSplitter(chunk_size=750, chunk_overlap=100)\<close>,
  and add everything to the document's collection. An exception leaves what was
  written before it.
\<close>

definition process_and_store_document ::
  "env \<Rightarrow> string \<Rightarrow> string \<Rightarrow> string \<Rightarrow> world \<Rightarrow> (exn + pyval) \<times> world" where
  "process_and_store_document env file_path filename api_key w =
     (case read_file (fs w) file_path of
        Inl e \<Rightarrow> (Inl e, w)
      | Inr bytes \<Rightarrow>
     (case partition env file_path bytes of
        Inl e \<Rightarrow> (Inl e, w)
      | Inr (elements, extracted) \<Rightarrow>
     (let w1 = w\<lparr>fs := fs w ++ map_of extracted\<rparr>
      in case process_elements env (fs w1) filename api_key elements ([], []) of
        Inl e \<Rightarrow> (Inl e, w1)
      | Inr (documents_to_embed, raw_text) \<Rightarrow>
     (let text_chunks = split_text env 750 100 raw_text;
          documents_to_embed = documents_to_embed @ map (text_document filename) text_chunks;
          collection_name = sanitize_filename_for_collection filename
      in case Chroma env (vstore w1) collection_name of
        Inl e \<Rightarrow> (Inl e, w1)
      | Inr vs1 \<Rightarrow>
     (case Chroma_add_documents env vs1 collection_name documents_to_embed of
        Inl e \<Rightarrow> (Inl e, w1\<lparr>vstore := vs1\<rparr>)
      | Inr vs2 \<Rightarrow>
     (case Chroma_persist env vs2 of
        Inl e \<Rightarrow> (Inl e, w1\<lparr>vstore := vs2\<rparr>)
      | Inr vs3 \<Rightarrow> (Inr PyNone, w1\<lparr>vstore := vs3\<rparr>)))))))"

text \<open>
  What the loop is meant to gather, element by element: a summary for every table, a
  description for every image that can be read and described, nothing for an image
  that cannot.
\<close>

fun element_documents ::
  "env \<Rightarrow> (string \<rightharpoonup> string) \<Rightarrow> string \<Rightarrow> string \<Rightarrow> element \<Rightarrow> document list" where
  "element_documents env files filename api_key (Table table_html) =
     (case summarize_table env table_html api_key of
        Inl e \<Rightarrow> []
      | Inr summary \<Rightarrow> [table_document filename summary])"
| "element_documents env files filename api_key (UnstructuredImage image_path) =
     (case describe_image_file env files image_path api_key of
        Inl e \<Rightarrow> []
      | Inr description \<Rightarrow> [image_document image_path description])"
| "element_documents env files filename api_key (OtherElement text) = []"

fun element_text :: "element \<Rightarrow> string" where
  "element_text (OtherElement text) = text @ nl @ nl"
| "element_text _ = []"

section \<open>Query\<close>

text \<open>The prompt template of the chain, with \<^verbatim>\<open>{context}\<close> and \<^verbatim>\<open>{question}\<close> filled in.\<close>

definition rag_prompt :: "string \<Rightarrow> string \<Rightarrow> string" where
  "rag_prompt context question =
     nl @ ''        You are a helpful assistant. Answer the user'' @ sq
        @ ''s question based ONLY on the following context.''
     @ nl @ ''        If the context does not contain the answer, state that you don'' @ sq
        @ ''t have enough information.''
     @ nl
     @ nl @ ''        CONTEXT:''
     @ nl @ ''        '' @ context
     @ nl
     @ nl @ ''        QUESTION:''
     @ nl @ ''        '' @ question
     @ nl
     @ nl @ ''        ANSWER:''
     @ nl @ ''        ''"

text \<open>
  The chain that \<^verbatim>\<open>create_rag_chain\<close> builds, run on a question: retrieve 25 candidates,
  re-rank them, join the contents of the kept ones with a blank line, fill the prompt
  and ask the model.
\<close>

definition rag_chain :: "env \<Rightarrow> string \<Rightarrow> string \<Rightarrow> vector_store \<Rightarrow> string \<Rightarrow> exn + string" where
  "rag_chain env collection_name api_key vs question =
     (let context = similarity_search env (collection_of vs collection_name) question 25
      in case rerank_docs env question context of
           Inl e \<Rightarrow> Inl e
         | Inr context \<Rightarrow>
             (let context = join (nl @ nl) (map page_content context)
              in text_llm env api_key (rag_prompt context question)))"

text \<open>
  \<^verbatim>\<open>create_rag_chain(filename, api_key)\<close> followed by \<^verbatim>\<open>.invoke(question)\<close>: the
  pipeline's query. Opening the store is the only step before the retrieval.
\<close>

definition create_rag_chain ::
  "env \<Rightarrow> string \<Rightarrow> string \<Rightarrow> vector_store \<Rightarrow> exn + (vector_store \<Rightarrow> string \<Rightarrow> exn + string) \<times> vector_store" where
  "create_rag_chain env filename api_key vs =
     (let collection_name = sanitize_filename_for_collection filename
      in case Chroma env vs collection_name of
           Inl e \<Rightarrow> Inl e
         | Inr vs1 \<Rightarrow> Inr (rag_chain env collection_name api_key, vs1))"

definition query :: "env \<Rightarrow> string \<Rightarrow> string \<Rightarrow> string \<Rightarrow> vector_store \<Rightarrow> (exn + string) \<times> vector_store" where
  "query env filename question api_key vs =
     (case create_rag_chain env filename api_key vs of
        Inl e \<Rightarrow> (Inl e, vs)
      | Inr (chain, vs1) \<Rightarrow> (chain vs1 question, vs1))"

section \<open>The HTTP boundary\<close>

type_synonym response = "(string \<times> string) list"

text \<open>
  \<^verbatim>\<open>
  file_path = os.path.join(UPLOAD_DIRECTORY, file.filename)
  if os.path.exists(file_path):
      raise HTTPException(status_code=409, detail="File with this name already exists.")
  try:
      with open(file_path, "wb") as buffer:
          shutil.copyfileobj(file.file, buffer)
  except Exception as e:
      raise HTTPException(status_code=500, detail=f"Error saving file: {e}")
  try:
      process_and_store_document(file_path, file.filename, gemini_api_key)
  except Exception as e:
      os.remove(file_path)
      raise HTTPException(status_code=500, detail=f"Failed to process and ingest document: {e}")
  return {"filename": file.filename, "status": "Successfully uploaded and processed."}
  \<close>
  A save that fails at \<^verbatim>\<open>open\<close> makes no file; one that fails in the copy leaves
  the file with what was written, and nothing removes it. When \<^verbatim>\<open>os.remove\<close> fails
  in the second handler, its error is the one that leaves the function.
\<close>

definition upload_file ::
  "env \<Rightarrow> string \<Rightarrow> string \<Rightarrow> string \<Rightarrow> world \<Rightarrow> (exn + response) \<times> world" where
  "upload_file env gemini_api_key filename content w =
     (let file_path = path_join UPLOAD_DIRECTORY filename
      in if file_path \<in> dom (fs w) then
           (Inl (HTTPException 409 ''File with this name already exists.''), w)
         else
           (case fs_open_error env file_path of
              Some m \<Rightarrow>
                (Inl (HTTPException 500 (''Error saving file: '' @ str_exn (Exception m))), w)
            | None \<Rightarrow>
           (case fs_copy_error env file_path of
              Some (m, written) \<Rightarrow>
                (Inl (HTTPException 500 (''Error saving file: '' @ str_exn (Exception m))),
                 w\<lparr>fs := (fs w)(file_path \<mapsto> take written content)\<rparr>)
            | None \<Rightarrow>
           (case process_and_store_document env file_path filename gemini_api_key
                   (w\<lparr>fs := (fs w)(file_path \<mapsto> content)\<rparr>) of
              (Inl e, w2) \<Rightarrow>
                (case fs_remove_error env file_path of
                   Some m \<Rightarrow> (Inl (Exception m), w2)
                 | None \<Rightarrow>
                     (Inl (HTTPException 500
                            (''Failed to process and ingest document: '' @ str_exn e)),
                      w2\<lparr>fs := (fs w2)(file_path := None)\<rparr>))
            | (Inr r, w2) \<Rightarrow>
                (Inr [(''filename'', filename),
                      (''status'', ''Successfully uploaded and processed.'')], w2)))))"

text \<open>
  \<^verbatim>\<open>
  file_path = os.path.join(UPLOAD_DIRECTORY, filename)
  if not os.path.exists(file_path):
      raise HTTPException(status_code=404, detail="Document not found.")
  try:
      rag_chain = create_rag_chain(filename, gemini_api_key)
      answer = rag_chain.invoke(query)
      return {"filename": filename, "query": query, "answer": answer}
  except Exception as e:
      raise HTTPException(status_code=500, detail=f"Error during query processing: {e}")
  \<close>
\<close>

definition query_document ::
  "env \<Rightarrow> string \<Rightarrow> string \<Rightarrow> string \<Rightarrow> world \<Rightarrow> (exn + response) \<times> world" where
  "query_document env filename question gemini_api_key w =
     (let file_path = path_join UPLOAD_DIRECTORY filename
      in if file_path \<notin> dom (fs w) then
           (Inl (HTTPException 404 ''Document not found.''), w)
         else
           (case query env filename question gemini_api_key (vstore w) of
              (Inl e, vs1) \<Rightarrow>
                (Inl (HTTPException 500 (''Error during query processing: '' @ str_exn e)),
                 w\<lparr>vstore := vs1\<rparr>)
            | (Inr answer, vs1) \<Rightarrow>
                (Inr [(''filename'', filename), (''query'', question), (''answer'', answer)],
                 w\<lparr>vstore := vs1\<rparr>)))"

text \<open>
  \<^verbatim>\<open>
  file_path = os.path.join(UPLOAD_DIRECTORY, filename)
  if not os.path.exists(file_path):
      raise HTTPException(status_code=404, detail="File not found.")
  try:
      os.remove(file_path)
      delete_document_vectors(filename)
      return {"status": "ok", "message": f"File '{filename}' and its vector data deleted successfully."}
  except Exception as e:
      raise HTTPException(status_code=500, detail=f"Error during deletion process: {e}")
  \<close>
\<close>

definition delete_document :: "env \<Rightarrow> string \<Rightarrow> world \<Rightarrow> (exn + response) \<times> world" where
  "delete_document env filename w =
     (let file_path = path_join UPLOAD_DIRECTORY filename
      in if file_path \<notin> dom (fs w) then
           (Inl (HTTPException 404 ''File not found.''), w)
         else
           (case fs_remove_error env file_path of
              Some m \<Rightarrow>
                (Inl (HTTPException 500
                       (''Error during deletion process: '' @ str_exn (Exception m))), w)
            | None \<Rightarrow>
                (case delete_document_vectors env filename (vstore w) of
                   (Inl e, vs1) \<Rightarrow>
                     (Inl (HTTPException 500
                            (''Error during deletion process: '' @ str_exn e)),
                      \<lparr>fs = (fs w)(file_path := None), vstore = vs1\<rparr>)
                 | (Inr r, vs1) \<Rightarrow>
                     (Inr [(''status'', ''ok''),
                           (''message'', ''File '' @ sq @ filename @ sq
                              @ '' and its vector data deleted successfully.'')],
                      \<lparr>fs = (fs w)(file_path := None), vstore = vs1\<rparr>))))"

section \<open>A sample environment\<close>

text \<open>
  One concrete choice of the collaborators, for the examples: every model call
  succeeds, the cross-encoder scores a text by its length, the search returns the first
  \<open>k\<close> entries, and neither the store nor the disk fails.
\<close>

definition env0 :: env where
  "env0 =
     \<lparr>partition = (\<lambda>path bytes. Inr ([], [])),
      text_llm = (\<lambda>key prompt. Inr ''an answer''),
      vision_llm = (\<lambda>key prompt bytes. Inr (''a picture of '' @ bytes)),
      split_text = (\<lambda>size overlap text. if text = [] then [] else [text]),
      cross_encoder = (\<lambda>q c. real (length c)),
      similarity_search = (\<lambda>c q k. take k (map entry_document c)),
      uuid = (\<lambda>c i. replicate (Suc (length c + i)) (CHR ''i'')),
      chroma_unavailable = None,
      chroma_write_error = None,
      fs_open_error = (\<lambda>path. None),
      fs_copy_error = (\<lambda>path. None),
      fs_remove_error = (\<lambda>path. None)\<rparr>"

definition docs6 :: "document list" where
  "docs6 =
     map (\<lambda>c. \<lparr>page_content = c, metadata = [(''source'', ''a.pdf''), (''type'', ''text'')]\<rparr>)
       [''bb'', ''a'', ''cc'', ''dddd'', [], ''eee'']"

text \<open>
  A store with the collection of \<open>a.pdf\<close> (a text chunk, the description of an image
  extracted from it, a table summary) and the collection of \<open>b.pdf\<close>, a document made
  of one image.
\<close>

definition store1 :: vector_store where
  "store1 = Map.empty(''rag_a_pdf'' \<mapsto>
     [\<lparr>entry_id = ''i'', entry_document = text_document ''a.pdf'' ''some text''\<rparr>,
      \<lparr>entry_id = ''ii'', entry_document =
         image_document ''./uploaded_files/figure-1-1.jpg'' ''a picture of a chart''\<rparr>,
      \<lparr>entry_id = ''iii'', entry_document = table_document ''a.pdf'' ''a table of sales''\<rparr>],
   ''rag_b_pdf'' \<mapsto>
     [\<lparr>entry_id = ''i'', entry_document =
         image_document ''./uploaded_files/figure-2-1.jpg'' ''a picture of a map''\<rparr>])"

text \<open>The same collaborators with a store that cannot be opened, and with one that rejects writes.\<close>

definition env_down :: env where
  "env_down = env0\<lparr>chroma_unavailable := Some (Exception ''connection refused'')\<rparr>"

definition env_readonly :: env where
  "env_readonly = env0\<lparr>chroma_write_error := Some (Exception ''database is locked'')\<rparr>"

text \<open>
  A partitioner that finds a heading, a table and three images, of which it writes
  only the first and the third to the upload directory; the same with a language model
  that refuses every call; and a world in which \<open>c.pdf\<close> has been uploaded.
\<close>

definition env_doc :: env where
  "env_doc = env0\<lparr>partition := (\<lambda>path bytes. Inr
     ([OtherElement ''Sales report'',
       Table ''<table><tr><td>1</td></tr></table>'',
       UnstructuredImage ''./uploaded_files/figure-1.jpg'',
       UnstructuredImage ''./uploaded_files/figure-2.jpg'',
       UnstructuredImage ''./uploaded_files/figure-3.jpg''],
      [(''./uploaded_files/figure-1.jpg'', ''a chart''),
       (''./uploaded_files/figure-3.jpg'', ''a map'')]))\<rparr>"

definition env_llm_down :: env where
  "env_llm_down = env_doc\<lparr>text_llm := (\<lambda>key prompt. Inl (Exception ''quota exceeded''))\<rparr>"

definition world1 :: world where
  "world1 = \<lparr>fs = Map.empty(''./uploaded_files/c.pdf'' \<mapsto> ''%PDF''), vstore = store1\<rparr>"

section \<open>Properties of the naming\<close>

subsection \<open>Replacing one character\<close>

lemma replace_Nil [simp]: "old \<noteq> [] \<Longrightarrow> replace old new [] = []"
  by (simp add: replace.simps)

lemma replace_char_Cons:
  "replace [a] new (x # xs) = (if x = a then new @ replace [a] new xs else x # replace [a] new xs)"
  by (subst replace.simps) simp

lemma replace_char_map:
  "replace [a] [b] s = map (\<lambda>c. if c = a then b else c) s"
  by (induction s) (simp_all add: replace_char_Cons)

lemma sanitize_map:
  "sanitize_filename_for_collection f =
     ''rag_'' @ map (\<lambda>c. if c = CHR '' '' \<or> c = CHR ''.'' then CHR ''_'' else c) f"
  by (simp add: sanitize_filename_for_collection_def replace_char_map)


text \<open>
  Claim C7. The collection name is a function of the filename alone, and it is the
  specification's rule: every space and every period replaced by an underscore, behind
  the prefix \<open>rag_\<close>. In particular \<open>My Report.pdf\<close> is named \<open>rag_My_Report_pdf\<close>.
\<close>

theorem naming_rule:
  "sanitize_filename_for_collection f = spec_name f \<and>
   sanitize_filename_for_collection ''My Report.pdf'' = ''rag_My_Report_pdf''"
  by (simp add: sanitize_map spec_name_def)

text \<open>
  Claim C8, as stated, fails: two different filenames that differ only in a space
  against a period get the same collection name.
\<close>

theorem naming_collision:
  "''my report.pdf'' \<noteq> ''my.report.pdf'' \<and>
   sanitize_filename_for_collection ''my report.pdf'' =
   sanitize_filename_for_collection ''my.report.pdf''"
  by (simp add: sanitize_map)

lemma normalised_eq_iff:
  "((if a = CHR '' '' \<or> a = CHR ''.'' then CHR ''_'' else a) =
    (if b = CHR '' '' \<or> b = CHR ''.'' then CHR ''_'' else b))
   \<longleftrightarrow> (a = b \<or> (separator a \<and> separator b))"
  by (auto simp: separator_def)

text \<open>
  Claim C8, amended. Two filenames get the same collection name exactly when they have
  the same length and, at every position, carry the same character or two characters
  among space, period and underscore. So the naming is injective on any set of
  filenames of which no two differ only in such characters.
\<close>

theorem naming_collisions_exactly:
  "sanitize_filename_for_collection f = sanitize_filename_for_collection g \<longleftrightarrow>
     list_all2 (\<lambda>a b. a = b \<or> (separator a \<and> separator b)) f g"
proof -
  let ?h = "\<lambda>c. if c = CHR '' '' \<or> c = CHR ''.'' then CHR ''_'' else c"
  have "sanitize_filename_for_collection f = sanitize_filename_for_collection g \<longleftrightarrow>
        map ?h f = map ?h g"
    by (simp add: sanitize_map)
  also have "\<dots> \<longleftrightarrow> list_all2 (=) (map ?h f) (map ?h g)"
    by (simp add: list.rel_eq)
  also have "\<dots> \<longleftrightarrow> list_all2 (\<lambda>a b. ?h a = ?h b) f g"
    by (simp add: list.rel_map)
  also have "\<dots> \<longleftrightarrow> list_all2 (\<lambda>a b. a = b \<or> (separator a \<and> separator b)) f g"
    by (simp only: normalised_eq_iff)
  finally show ?thesis .
qed

theorem naming_collisions_exactly_witness:
  "sanitize_filename_for_collection ''a b.c'' = sanitize_filename_for_collection ''a_b_c'' \<and>
   sanitize_filename_for_collection ''a b.c'' \<noteq> sanitize_filename_for_collection ''a-b.c''"
  using naming_collisions_exactly [of "''a b.c''" "''a_b_c''"]
        naming_collisions_exactly [of "''a b.c''" "''a-b.c''"]
  by (simp add: separator_def)

section \<open>Properties of the re-ranking\<close>

subsection \<open>The descending stable sort\<close>

lemma sort_reverse_mset: "mset (sort_reverse key xs) = mset xs"
  by (simp add: sort_reverse_def)

lemma sort_reverse_length: "length (sort_reverse key xs) = length xs"
  by (simp add: sort_reverse_def)

lemma sort_reverse_sorted: "sorted_wrt (\<lambda>a b. key b \<le> key a) (sort_reverse key xs)"
proof -
  have "sorted (map key (sort_key key (rev xs)))"
    by (rule sorted_sort_key)
  then have "sorted_wrt (\<lambda>a b. key a \<le> key b) (sort_key key (rev xs))"
    by (simp add: sorted_map)
  then show ?thesis
    by (simp add: sort_reverse_def sorted_wrt_rev)
qed

lemma sort_reverse_stable:
  "filter (\<lambda>y. key y = k) (sort_reverse key xs) = filter (\<lambda>y. key y = k) xs"
proof -
  have "filter (\<lambda>y. key y = k) (sort_reverse key xs)
      = rev (filter (\<lambda>y. key y = k) (sort_key key (rev xs)))"
    by (simp add: sort_reverse_def rev_filter)
  also have "\<dots> = rev (filter (\<lambda>y. key y = k) (rev xs))"
    by (simp only: sort_key_stable)
  also have "\<dots> = filter (\<lambda>y. key y = k) xs"
    by (simp add: rev_filter)
  finally show ?thesis .
qed

lemma insort_key_map:
  "insort_key key (g x) (map g ys) = map g (insort_key (\<lambda>y. key (g y)) x ys)"
  by (induction ys) simp_all

lemma sort_key_map: "sort_key key (map g xs) = map g (sort_key (\<lambda>y. key (g y)) xs)"
  by (induction xs) (simp_all add: insort_key_map)

lemma sort_reverse_map:
  "sort_reverse key (map g xs) = map g (sort_reverse (\<lambda>y. key (g y)) xs)"
  by (simp add: sort_reverse_def rev_map sort_key_map)

lemma predict_candidates:
  "docs \<noteq> [] \<Longrightarrow>
   predict env (map (\<lambda>doc. (q, page_content doc)) docs) = Inr (map (score_of env q) docs)"
  by (simp add: predict_def score_of_def comp_def)

lemma doc_scores_map:
  "zip docs (map (score_of env q) docs) = map (\<lambda>d. (d, score_of env q d)) docs"
  by (induction docs) simp_all

lemma rerank_docs_take:
  "docs \<noteq> [] \<Longrightarrow> rerank_docs env q docs = Inr (take 5 (sort_reverse (score_of env q) docs))"
  by (simp add: rerank_docs_def Let_def predict_candidates doc_scores_map sort_reverse_map
        take_map comp_def)

lemma rerank_docs_Nil:
  "rerank_docs env q [] = Inl (Exception ''list index out of range'')"
  by (simp add: rerank_docs_def predict_def)

lemma rerank_docs6:
  "map_sum id (map page_content) (rerank_docs env0 ''what?'' docs6) =
     Inr [''dddd'', ''eee'', ''bb'', ''cc'', ''a'']"
  by (simp add: rerank_docs_def docs6_def predict_def env0_def sort_reverse_def)

text \<open>
  Claim C2. From at least five candidates the re-ranking returns, and keeps exactly
  five. The candidates split into the kept ones and the excluded ones; every kept one
  scores at least as high as every excluded one; the kept ones are in descending order
  of score; and the candidates of any one score, read in their Stage-1 order, are the
  kept ones of that score in the order they are returned, followed by the excluded
  ones: ties are broken by the Stage-1 order.
\<close>

theorem rerank_top_k:
  assumes "5 \<le> length docs"
  shows "\<exists>kept excluded.
     rerank_docs env q docs = Inr kept \<and>
     length kept = 5 \<and>
     mset docs = mset kept + mset excluded \<and>
     (\<forall>x \<in> set kept. \<forall>y \<in> set excluded. score_of env q y \<le> score_of env q x) \<and>
     sorted_wrt (\<lambda>a b. score_of env q b \<le> score_of env q a) kept \<and>
     (\<forall>k. filter (\<lambda>d. score_of env q d = k) docs =
          filter (\<lambda>d. score_of env q d = k) kept @
          filter (\<lambda>d. score_of env q d = k) excluded)"
proof -
  let ?s = "score_of env q"
  let ?r = "sort_reverse ?s docs"
  let ?out = "take 5 ?r"
  let ?ex = "drop 5 ?r"
  have split: "?out @ ?ex = ?r" by simp
  have len: "length ?out = 5"
    using assms by (simp add: sort_reverse_length)
  have "mset ?r = mset ?out + mset ?ex"
    by (metis split mset_append)
  then have perm: "mset docs = mset ?out + mset ?ex"
    by (simp add: sort_reverse_mset)
  have srt: "sorted_wrt (\<lambda>a b. ?s b \<le> ?s a) (?out @ ?ex)"
    by (simp only: split sort_reverse_sorted)
  then have above: "\<forall>x \<in> set ?out. \<forall>y \<in> set ?ex. ?s y \<le> ?s x"
    by (simp only: sorted_wrt_append) blast
  have desc: "sorted_wrt (\<lambda>a b. ?s b \<le> ?s a) ?out"
    using srt by (simp only: sorted_wrt_append)
  have stable: "filter (\<lambda>d. ?s d = k) docs =
      filter (\<lambda>d. ?s d = k) ?out @ filter (\<lambda>d. ?s d = k) ?ex" for k
  proof -
    have "filter (\<lambda>d. ?s d = k) ?out @ filter (\<lambda>d. ?s d = k) ?ex =
          filter (\<lambda>d. ?s d = k) (?out @ ?ex)"
      by (rule filter_append [symmetric])
    also have "\<dots> = filter (\<lambda>d. ?s d = k) ?r"
      by (simp only: split)
    also have "\<dots> = filter (\<lambda>d. ?s d = k) docs"
      by (rule sort_reverse_stable)
    finally show ?thesis by (rule sym)
  qed
  from assms have "docs \<noteq> []" by auto
  then have r: "rerank_docs env q docs = Inr ?out"
    by (rule rerank_docs_take)
  show ?thesis
    using r len perm above desc stable by blast
qed

theorem rerank_top_k_witness:
  "5 \<le> length docs6 \<and>
   (\<exists>kept. rerank_docs env0 ''what?'' docs6 = Inr kept \<and> length kept = 5)"
proof -
  have h: "5 \<le> length docs6" by (simp add: docs6_def)
  show ?thesis using h rerank_top_k [OF h, of env0 "''what?''"] by blast
qed

text \<open>
  Claim C10, as stated, fails at zero candidates: the cross-encoder is called on the
  empty list of pairs and raises, so the re-ranking does not return.
\<close>

theorem rerank_empty_raises:
  "rerank_docs env0 ''what?'' [] = Inl (Exception ''list index out of range'')"
  by (rule rerank_docs_Nil)

text \<open>
  Claim C10, amended. From \<open>n\<close> candidates, \<open>n\<close> at least one, the re-ranking
  returns \<open>min n 5\<close> of them in descending order of score, every one of them taken
  from the input (as often at most as it occurs there, so nothing is padded); with five
  candidates or fewer it returns all of them.
\<close>

theorem rerank_short:
  assumes "docs \<noteq> []"
  shows "\<exists>kept.
     rerank_docs env q docs = Inr kept \<and>
     length kept = min (length docs) 5 \<and>
     mset kept \<subseteq># mset docs \<and>
     sorted_wrt (\<lambda>a b. score_of env q b \<le> score_of env q a) kept \<and>
     (length docs \<le> 5 \<longrightarrow> mset kept = mset docs)"
proof -
  let ?s = "score_of env q"
  let ?r = "sort_reverse ?s docs"
  have split: "take 5 ?r @ drop 5 ?r = ?r" by simp
  have len: "length (take 5 ?r) = min (length docs) 5"
    by (simp add: sort_reverse_length)
  have "mset ?r = mset (take 5 ?r) + mset (drop 5 ?r)"
    by (metis split mset_append)
  then have sub: "mset (take 5 ?r) \<subseteq># mset docs"
    by (simp add: sort_reverse_mset)
  have "sorted_wrt (\<lambda>a b. ?s b \<le> ?s a) (take 5 ?r @ drop 5 ?r)"
    by (simp only: split sort_reverse_sorted)
  then have desc: "sorted_wrt (\<lambda>a b. ?s b \<le> ?s a) (take 5 ?r)"
    by (simp only: sorted_wrt_append)
  have all: "length docs \<le> 5 \<longrightarrow> mset (take 5 ?r) = mset docs"
    by (simp add: sort_reverse_length sort_reverse_mset)
  have r: "rerank_docs env q docs = Inr (take 5 ?r)"
    using assms by (rule rerank_docs_take)
  show ?thesis
    using r len sub desc all by blast
qed

theorem rerank_short_witness:
  "take 3 docs6 \<noteq> [] \<and> length (take 3 docs6) \<le> 5 \<and>
   (\<exists>kept. rerank_docs env0 ''what?'' (take 3 docs6) = Inr kept \<and>
      mset kept = mset (take 3 docs6))"
proof -
  have h: "take 3 docs6 \<noteq> []" by (simp add: docs6_def)
  have l: "length (take 3 docs6) \<le> 5" by simp
  show ?thesis using h l rerank_short [OF h, of env0 "''what?''"] by blast
qed

section \<open>Properties of the deletion\<close>

subsection \<open>Opening the store\<close>

lemma collection_of_Chroma:
  "Chroma env vs n = Inr vs1 \<Longrightarrow> collection_of vs1 m = collection_of vs m"
  by (auto simp: Chroma_def collection_of_def split: option.splits if_splits)

lemma Chroma_available:
  "chroma_unavailable env = None \<Longrightarrow> \<exists>vs1. Chroma env vs n = Inr vs1"
  by (simp add: Chroma_def)

lemma Chroma_down:
  "chroma_unavailable env = Some e \<Longrightarrow> Chroma env vs n = Inl e"
  by (simp add: Chroma_def)

subsection \<open>The identifiers picked for deletion\<close>

lemma enumerate_index: "(i, x) \<in> set (enumerate n xs) \<Longrightarrow> n \<le> i \<and> i < n + length xs"
  by (auto simp: in_set_enumerate_eq)

lemma ids_to_delete_snoc:
  "length ms = length xs \<Longrightarrow>
   ids_to_delete f (xs @ [x]) (ms @ [m]) =
     ids_to_delete f xs ms @ (if map_of m ''source'' = Some f then [x] else [])"
proof -
  assume len: "length ms = length xs"
  have "filter (\<lambda>(i, doc_id). map_of ((ms @ [m]) ! i) ''source'' = Some f) (enumerate 0 xs)
      = filter (\<lambda>(i, doc_id). map_of (ms ! i) ''source'' = Some f) (enumerate 0 xs)"
    by (rule filter_cong) (auto simp: nth_append len dest: enumerate_index)
  moreover have "(ms @ [m]) ! length xs = m"
    using len by (metis nth_append_length)
  ultimately show ?thesis
    by (simp add: ids_to_delete_def enumerate_append_eq)
qed

lemma ids_to_delete_collection:
  "ids_to_delete f (map entry_id c) (map (\<lambda>e. metadata (entry_document e)) c)
     = map entry_id (filter (\<lambda>e. source_of e = Some f) c)"
proof (induction c rule: rev_induct)
  case Nil
  show ?case by (simp add: ids_to_delete_def)
next
  case (snoc e c)
  then show ?case
    by (simp add: ids_to_delete_snoc source_of_def)
qed

lemma filter_not_in_ids:
  assumes "distinct (map entry_id c)"
  shows "filter (\<lambda>e. entry_id e \<notin> set (map entry_id (filter P c))) c = filter (\<lambda>e. \<not> P e) c"
proof (rule filter_cong)
  fix e assume e: "e \<in> set c"
  have "entry_id e \<in> entry_id ` {x \<in> set c. P x} \<longleftrightarrow> P e"
  proof
    assume "entry_id e \<in> entry_id ` {x \<in> set c. P x}"
    then obtain x where x: "x \<in> set c" "P x" "entry_id x = entry_id e" by auto
    from assms have "inj_on entry_id (set c)" by (simp add: distinct_map)
    with x e have "x = e" by (auto dest: inj_onD)
    with x show "P e" by simp
  next
    assume "P e" with e show "entry_id e \<in> entry_id ` {x \<in> set c. P x}" by auto
  qed
  then show "(entry_id e \<notin> set (map entry_id (filter P c))) = (\<not> P e)" by simp
qed simp

subsection \<open>The effect on the store\<close>

lemma delete_result:
  "fst (delete_document_vectors env filename vs) = Inr PyNone"
  by (simp add: delete_document_vectors_def Let_def split: sum.splits prod.splits)

lemma delete_collection:
  assumes up: "chroma_unavailable env = None"
    and wr: "chroma_write_error env = None"
    and ids: "distinct (map entry_id (collection_of vs (sanitize_filename_for_collection filename)))"
  shows "collection_of (snd (delete_document_vectors env filename vs)) n =
          (if n = sanitize_filename_for_collection filename
           then filter (\<lambda>e. source_of e \<noteq> Some filename) (collection_of vs n)
           else collection_of vs n)"
proof -
  let ?n = "sanitize_filename_for_collection filename"
  let ?c = "collection_of vs ?n"
  let ?P = "\<lambda>e. source_of e = Some filename"
  obtain vs1 where vs1: "Chroma env vs ?n = Inr vs1"
    using Chroma_available [OF up] by blast
  have c1: "collection_of vs1 m = collection_of vs m" for m
    using collection_of_Chroma [OF vs1] .
  have get: "Chroma_get vs1 ?n = (map entry_id ?c, map (\<lambda>e. metadata (entry_document e)) ?c)"
    by (simp add: Chroma_get_def c1)
  have dels: "ids_to_delete filename (map entry_id ?c) (map (\<lambda>e. metadata (entry_document e)) ?c)
      = map entry_id (filter ?P ?c)"
    by (rule ids_to_delete_collection)
  show ?thesis
  proof (cases "filter ?P ?c = []")
    case True
    then have "filter (\<lambda>e. \<not> ?P e) ?c = ?c"
      by (simp add: filter_empty_conv)
    moreover have "snd (delete_document_vectors env filename vs) = vs1"
      using True by (simp add: delete_document_vectors_def Let_def vs1 get dels)
    ultimately show ?thesis by (simp add: c1)
  next
    case False
    then have ne: "?c \<noteq> []" by auto
    have "snd (delete_document_vectors env filename vs) =
        vs1(?n \<mapsto> filter (\<lambda>e. entry_id e \<notin> set (map entry_id (filter ?P ?c))) ?c)"
      using False ne
      by (simp add: delete_document_vectors_def Let_def vs1 get dels Chroma_delete_def
            Chroma_persist_def wr c1)
    also have "\<dots> = vs1(?n \<mapsto> filter (\<lambda>e. \<not> ?P e) ?c)"
      by (simp only: filter_not_in_ids [OF ids])
    finally show ?thesis
      using c1 by (simp add: collection_of_def)
  qed
qed


lemma delete_no_match:
  assumes "\<forall>e \<in> set (collection_of vs (sanitize_filename_for_collection filename)).
             source_of e \<noteq> Some filename"
  shows "collection_of (snd (delete_document_vectors env filename vs)) n = collection_of vs n"
proof (cases "Chroma env vs (sanitize_filename_for_collection filename)")
  case (Inl e)
  then show ?thesis by (simp add: delete_document_vectors_def)
next
  case (Inr vs1)
  let ?c = "collection_of vs (sanitize_filename_for_collection filename)"
  have c1: "collection_of vs1 m = collection_of vs m" for m
    using collection_of_Chroma [OF Inr] .
  have "filter (\<lambda>e. source_of e = Some filename) ?c = []"
    using assms by (simp add: filter_empty_conv)
  then have "snd (delete_document_vectors env filename vs) = vs1"
    by (simp add: delete_document_vectors_def Let_def Inr Chroma_get_def c1
          ids_to_delete_collection)
  then show ?thesis by (simp add: c1)
qed

lemma delete_store_down:
  assumes "chroma_unavailable env \<noteq> None"
  shows "snd (delete_document_vectors env filename vs) = vs"
proof -
  from assms obtain e where "chroma_unavailable env = Some e" by auto
  then show ?thesis
    by (simp add: delete_document_vectors_def Chroma_down)
qed

lemma delete_write_fails:
  assumes "chroma_write_error env \<noteq> None"
  shows "collection_of (snd (delete_document_vectors env filename vs)) n = collection_of vs n"
proof (cases "Chroma env vs (sanitize_filename_for_collection filename)")
  case (Inl e)
  then show ?thesis by (simp add: delete_document_vectors_def)
next
  case (Inr vs1)
  from assms obtain e where e: "chroma_write_error env = Some e" by auto
  have "snd (delete_document_vectors env filename vs) = vs1"
    by (simp add: delete_document_vectors_def Let_def Inr Chroma_delete_def e
          split: prod.splits)
  then show ?thesis by (simp add: collection_of_Chroma [OF Inr])
qed

text \<open>
  Claim C1, as stated, fails. With a store that rejects the write, and with a store
  that cannot be opened, the deletion returns normally, the identifiers are distinct,
  and the collection still holds its two entries whose \<open>source\<close> is the filename.
\<close>

theorem delete_leaves_entries:
  "fst (delete_document_vectors env_readonly ''a.pdf'' store1) = Inr PyNone \<and>
   fst (delete_document_vectors env_down ''a.pdf'' store1) = Inr PyNone \<and>
   distinct (map entry_id (collection_of store1 ''rag_a_pdf'')) \<and>
   map source_of
     (collection_of (snd (delete_document_vectors env_readonly ''a.pdf'' store1)) ''rag_a_pdf'') =
     [Some ''a.pdf'', Some ''./uploaded_files/figure-1-1.jpg'', Some ''a.pdf''] \<and>
   map source_of
     (collection_of (snd (delete_document_vectors env_down ''a.pdf'' store1)) ''rag_a_pdf'') =
     [Some ''a.pdf'', Some ''./uploaded_files/figure-1-1.jpg'', Some ''a.pdf'']"
  by (simp add: delete_document_vectors_def sanitize_map Chroma_def Chroma_get_def
        Chroma_delete_def ids_to_delete_def collection_of_def source_of_def
        env_down_def env_readonly_def env0_def store1_def enumerate_eq_zip upt_rec
        text_document_def image_document_def table_document_def)

text \<open>
  Claim C1, amended. Let the identifiers within the document's collection be distinct
  (the store keeps them so). When the store can be opened and accepts the write, then
  after the deletion the collection holds no entry whose \<open>source\<close> is the filename,
  every entry with another \<open>source\<close> (such as an image description, whose
  \<open>source\<close> is the path of the extracted image) is still there, the collection is
  exactly its former entries of another \<open>source\<close>, unchanged and in their order, and
  no other collection changes. When the store cannot be opened or rejects the write,
  the deletion still returns and every collection holds what it held before.
\<close>

theorem delete_removes_exactly:
  assumes "distinct (map entry_id (collection_of vs (sanitize_filename_for_collection filename)))"
  shows
   "(chroma_unavailable env = None \<and> chroma_write_error env = None \<longrightarrow>
      (\<forall>e \<in> set (collection_of (snd (delete_document_vectors env filename vs))
                   (sanitize_filename_for_collection filename)).
         source_of e \<noteq> Some filename) \<and>
      (\<forall>e \<in> set (collection_of vs (sanitize_filename_for_collection filename)).
         source_of e \<noteq> Some filename \<longrightarrow>
         e \<in> set (collection_of (snd (delete_document_vectors env filename vs))
                   (sanitize_filename_for_collection filename))) \<and>
      collection_of (snd (delete_document_vectors env filename vs))
          (sanitize_filename_for_collection filename) =
        filter (\<lambda>e. source_of e \<noteq> Some filename)
          (collection_of vs (sanitize_filename_for_collection filename)) \<and>
      (\<forall>n. n \<noteq> sanitize_filename_for_collection filename \<longrightarrow>
         collection_of (snd (delete_document_vectors env filename vs)) n = collection_of vs n)) \<and>
    (chroma_unavailable env \<noteq> None \<or> chroma_write_error env \<noteq> None \<longrightarrow>
      fst (delete_document_vectors env filename vs) = Inr PyNone \<and>
      (\<forall>n. collection_of (snd (delete_document_vectors env filename vs)) n = collection_of vs n))"
proof (intro conjI impI)
  assume ok: "chroma_unavailable env = None \<and> chroma_write_error env = None"
  then have up: "chroma_unavailable env = None" and wr: "chroma_write_error env = None"
    by simp_all
  note after = delete_collection [OF up wr assms]
  show "\<forall>e \<in> set (collection_of (snd (delete_document_vectors env filename vs))
                   (sanitize_filename_for_collection filename)).
         source_of e \<noteq> Some filename"
    by (simp add: after)
  show "\<forall>e \<in> set (collection_of vs (sanitize_filename_for_collection filename)).
         source_of e \<noteq> Some filename \<longrightarrow>
         e \<in> set (collection_of (snd (delete_document_vectors env filename vs))
                   (sanitize_filename_for_collection filename))"
    by (simp add: after)
  show "collection_of (snd (delete_document_vectors env filename vs))
          (sanitize_filename_for_collection filename) =
        filter (\<lambda>e. source_of e \<noteq> Some filename)
          (collection_of vs (sanitize_filename_for_collection filename))"
    by (simp add: after)
  show "\<forall>n. n \<noteq> sanitize_filename_for_collection filename \<longrightarrow>
         collection_of (snd (delete_document_vectors env filename vs)) n = collection_of vs n"
    by (simp add: after)
next
  assume "chroma_unavailable env \<noteq> None \<or> chroma_write_error env \<noteq> None"
  then show "\<forall>n. collection_of (snd (delete_document_vectors env filename vs)) n =
      collection_of vs n"
  proof
    assume "chroma_unavailable env \<noteq> None"
    then show ?thesis by (simp add: delete_store_down)
  next
    assume "chroma_write_error env \<noteq> None"
    then show ?thesis by (simp add: delete_write_fails)
  qed
next
  show "fst (delete_document_vectors env filename vs) = Inr PyNone"
    by (rule delete_result)
qed

theorem delete_removes_exactly_witness:
  "collection_of (snd (delete_document_vectors env0 ''a.pdf'' store1)) ''rag_a_pdf'' =
     [\<lparr>entry_id = ''ii'', entry_document =
         image_document ''./uploaded_files/figure-1-1.jpg'' ''a picture of a chart''\<rparr>] \<and>
   collection_of (snd (delete_document_vectors env_readonly ''a.pdf'' store1)) ''rag_a_pdf'' =
     collection_of store1 ''rag_a_pdf''"
proof -
  have ok: "chroma_unavailable env0 = None \<and> chroma_write_error env0 = None"
    by (simp add: env0_def)
  have ro: "chroma_unavailable env_readonly \<noteq> None \<or> chroma_write_error env_readonly \<noteq> None"
    by (simp add: env_readonly_def)
  have n: "sanitize_filename_for_collection ''a.pdf'' = ''rag_a_pdf''"
    by (simp add: sanitize_map)
  have ids: "distinct (map entry_id (collection_of store1 (sanitize_filename_for_collection ''a.pdf'')))"
    by (simp add: n collection_of_def store1_def)
  from delete_removes_exactly [OF ids, of env0] ok
  have "collection_of (snd (delete_document_vectors env0 ''a.pdf'' store1))
          (sanitize_filename_for_collection ''a.pdf'') =
        filter (\<lambda>e. source_of e \<noteq> Some ''a.pdf'')
          (collection_of store1 (sanitize_filename_for_collection ''a.pdf''))"
    by blast
  then have first: "collection_of (snd (delete_document_vectors env0 ''a.pdf'' store1)) ''rag_a_pdf'' =
     [\<lparr>entry_id = ''ii'', entry_document =
         image_document ''./uploaded_files/figure-1-1.jpg'' ''a picture of a chart''\<rparr>]"
    by (simp add: n collection_of_def store1_def source_of_def text_document_def
          image_document_def table_document_def)
  from delete_removes_exactly [OF ids, of env_readonly] ro
  have second: "collection_of (snd (delete_document_vectors env_readonly ''a.pdf'' store1)) ''rag_a_pdf'' =
     collection_of store1 ''rag_a_pdf''"
    by blast
  from first second show ?thesis by blast
qed

text \<open>
  Claim C3, as stated, fails. With the store down, and with a store that rejects the
  write, the deletion returns \<^verbatim>\<open>None\<close> and raises nothing, and the entries stay;
  with a working store it removes two entries and returns \<^verbatim>\<open>None\<close>, not the
  count.
\<close>

theorem delete_swallows:
  "delete_document_vectors env_down ''a.pdf'' store1 = (Inr PyNone, store1) \<and>
   delete_document_vectors env_readonly ''a.pdf'' store1 = (Inr PyNone, store1) \<and>
   fst (delete_document_vectors env0 ''a.pdf'' store1) = Inr PyNone \<and>
   length (collection_of store1 ''rag_a_pdf'') = 3 \<and>
   length (collection_of (snd (delete_document_vectors env0 ''a.pdf'' store1)) ''rag_a_pdf'') = 1"
  by (simp add: delete_document_vectors_def sanitize_map Chroma_def Chroma_get_def
        Chroma_delete_def Chroma_persist_def ids_to_delete_def collection_of_def
        env_down_def env_readonly_def env0_def store1_def enumerate_eq_zip upt_rec
        text_document_def image_document_def table_document_def)

text \<open>
  Claim C3, amended. The deletion returns \<^verbatim>\<open>None\<close> and raises nothing,
  whatever the store does. When no entry of the collection has the filename as its
  \<open>source\<close>, no collection changes. When the store cannot be opened the store is left
  as it is, and when the write fails no collection changes: the handler prints the
  exception and the caller is not told.
\<close>

theorem delete_never_raises:
  "fst (delete_document_vectors env filename vs) = Inr PyNone \<and>
   ((\<forall>e \<in> set (collection_of vs (sanitize_filename_for_collection filename)).
       source_of e \<noteq> Some filename) \<longrightarrow>
    (\<forall>n. collection_of (snd (delete_document_vectors env filename vs)) n = collection_of vs n)) \<and>
   (chroma_unavailable env \<noteq> None \<longrightarrow> snd (delete_document_vectors env filename vs) = vs) \<and>
   (chroma_write_error env \<noteq> None \<longrightarrow>
    (\<forall>n. collection_of (snd (delete_document_vectors env filename vs)) n = collection_of vs n))"
  using delete_result delete_no_match delete_store_down delete_write_fails by blast

theorem delete_never_raises_witness:
  "fst (delete_document_vectors env0 ''b.pdf'' store1) = Inr PyNone \<and>
   collection_of (snd (delete_document_vectors env0 ''b.pdf'' store1)) ''rag_b_pdf'' =
     collection_of store1 ''rag_b_pdf'' \<and>
   snd (delete_document_vectors env_down ''a.pdf'' store1) = store1 \<and>
   collection_of (snd (delete_document_vectors env_readonly ''a.pdf'' store1)) ''rag_a_pdf'' =
     collection_of store1 ''rag_a_pdf''"
proof -
  have n: "sanitize_filename_for_collection ''b.pdf'' = ''rag_b_pdf''"
    by (simp add: sanitize_map)
  have none: "\<forall>e \<in> set (collection_of store1 (sanitize_filename_for_collection ''b.pdf'')).
      source_of e \<noteq> Some ''b.pdf''"
    by (simp add: n collection_of_def store1_def source_of_def image_document_def)
  have down: "chroma_unavailable env_down \<noteq> None"
    by (simp add: env_down_def)
  have ro: "chroma_write_error env_readonly \<noteq> None"
    by (simp add: env_readonly_def)
  show ?thesis
    using delete_never_raises [of env0 "''b.pdf''" store1]
      delete_never_raises [of env_down "''a.pdf''" store1]
      delete_never_raises [of env_readonly "''a.pdf''" store1]
      none down ro
    by blast
qed

section \<open>Properties of the ingestion\<close>

subsection \<open>The loop over the elements\<close>

lemma process_elements_ok:
  assumes "\<forall>html. Table html \<in> set els \<longrightarrow> \<not> isl (summarize_table env html key)"
  shows "process_elements env files fn key els (docs, raw) =
     Inr (docs @ concat (map (element_documents env files fn key) els),
          raw @ concat (map element_text els))"
  using assms
proof (induction els arbitrary: docs raw)
  case Nil
  show ?case by simp
next
  case (Cons el els)
  then have rest: "\<forall>html. Table html \<in> set els \<longrightarrow> \<not> isl (summarize_table env html key)"
    by simp
  show ?case
  proof (cases el)
    case (Table html)
    with Cons.prems obtain summary where "summarize_table env html key = Inr summary"
      by (cases "summarize_table env html key") auto
    then show ?thesis
      by (simp add: Table Cons.IH [OF rest])
  next
    case (UnstructuredImage path)
    show ?thesis
      by (cases "describe_image_file env files path key")
         (simp_all add: UnstructuredImage Cons.IH [OF rest])
  next
    case (OtherElement t)
    show ?thesis
      by (simp add: OtherElement Cons.IH [OF rest])
  qed
qed

lemma process_elements_abort:
  assumes "Table html \<in> set els" and "isl (summarize_table env html key)"
  shows "\<exists>html' e. Table html' \<in> set els \<and> summarize_table env html' key = Inl e \<and>
           process_elements env files fn key els (docs, raw) = Inl e"
  using assms
proof (induction els arbitrary: docs raw)
  case Nil
  then show ?case by simp
next
  case (Cons el els)
  note IH = Cons.IH [OF _ Cons.prems(2)]
  show ?case
  proof (cases el)
    case (Table h)
    show ?thesis
    proof (cases "summarize_table env h key")
      case (Inl e)
      then show ?thesis using Table by auto
    next
      case (Inr summary)
      with Cons.prems Table have "Table html \<in> set els" by auto
      from IH [OF this, of "docs @ [table_document fn summary]" raw]
      show ?thesis using Table Inr by auto
    qed
  next
    case (UnstructuredImage path)
    with Cons.prems have later: "Table html \<in> set els" by auto
    show ?thesis
    proof (cases "describe_image_file env files path key")
      case (Inl e)
      from IH [OF later, of docs raw]
      show ?thesis using UnstructuredImage Inl by auto
    next
      case (Inr description)
      from IH [OF later, of "docs @ [image_document path description]" raw]
      show ?thesis using UnstructuredImage Inr by auto
    qed
  next
    case (OtherElement t)
    with Cons.prems have later: "Table html \<in> set els" by auto
    from IH [OF later, of docs "raw @ t @ nl @ nl"]
    show ?thesis using OtherElement by auto
  qed
qed

subsection \<open>Storing the documents\<close>

lemma entry_documents_added:
  "map (entry_document \<circ> (\<lambda>(i, d). \<lparr>entry_id = f i, entry_document = d\<rparr>)) (enumerate n docs)
     = docs"
  by (induction docs arbitrary: n) simp_all

lemma add_documents_ok:
  assumes "chroma_write_error env = None"
  shows "\<exists>vs2. Chroma_add_documents env vs n docs = Inr vs2 \<and>
          map entry_document (collection_of vs2 n) = map entry_document (collection_of vs n) @ docs \<and>
          (\<forall>m. m \<noteq> n \<longrightarrow> collection_of vs2 m = collection_of vs m)"
  using assms
  by (simp add: Chroma_add_documents_def Let_def collection_of_def entry_documents_added)

subsection \<open>A document with a table and three images\<close>

lemma world1_read: "read_file (fs world1) ''./uploaded_files/c.pdf'' = Inr ''%PDF''"
  by (simp add: read_file_def world1_def)

lemma env_doc_partition:
  "partition env_doc ''./uploaded_files/c.pdf'' ''%PDF'' = Inr
     ([OtherElement ''Sales report'',
       Table ''<table><tr><td>1</td></tr></table>'',
       UnstructuredImage ''./uploaded_files/figure-1.jpg'',
       UnstructuredImage ''./uploaded_files/figure-2.jpg'',
       UnstructuredImage ''./uploaded_files/figure-3.jpg''],
      [(''./uploaded_files/figure-1.jpg'', ''a chart''),
       (''./uploaded_files/figure-3.jpg'', ''a map'')])"
  by (simp add: env_doc_def)

lemma env_llm_down_partition:
  "partition env_llm_down ''./uploaded_files/c.pdf'' ''%PDF'' = Inr
     ([OtherElement ''Sales report'',
       Table ''<table><tr><td>1</td></tr></table>'',
       UnstructuredImage ''./uploaded_files/figure-1.jpg'',
       UnstructuredImage ''./uploaded_files/figure-2.jpg'',
       UnstructuredImage ''./uploaded_files/figure-3.jpg''],
      [(''./uploaded_files/figure-1.jpg'', ''a chart''),
       (''./uploaded_files/figure-3.jpg'', ''a map'')])"
  by (simp add: env_llm_down_def env_doc_def)

subsection \<open>Failing tables and failing images\<close>

text \<open>
  Claim C5. Let the file be read and partitioned. If the summarization of some table
  fails, the ingestion ends with the error of a failing table and the vector store is
  as it was: nothing of the document is stored. If no table summarization fails and the
  store works, the ingestion succeeds whatever happens to the images, and it appends to
  the document's collection the summary of every table, the description of every image
  that could be read and described, and every text chunk; an image that fails adds
  nothing and stops nothing.
\<close>

theorem ingestion_failures:
  assumes "read_file (fs w) file_path = Inr bytes"
    and "partition env file_path bytes = Inr (elements, extracted)"
  shows
   "((\<exists>html. Table html \<in> set elements \<and> isl (summarize_table env html api_key)) \<longrightarrow>
       (\<exists>html e. Table html \<in> set elements \<and> summarize_table env html api_key = Inl e \<and>
          fst (process_and_store_document env file_path filename api_key w) = Inl e) \<and>
       vstore (snd (process_and_store_document env file_path filename api_key w)) = vstore w) \<and>
    ((\<forall>html. Table html \<in> set elements \<longrightarrow> \<not> isl (summarize_table env html api_key)) \<and>
     chroma_unavailable env = None \<and> chroma_write_error env = None \<longrightarrow>
       fst (process_and_store_document env file_path filename api_key w) = Inr PyNone \<and>
       map entry_document
         (collection_of (vstore (snd (process_and_store_document env file_path filename api_key w)))
            (sanitize_filename_for_collection filename)) =
       map entry_document (collection_of (vstore w) (sanitize_filename_for_collection filename))
         @ concat (map (element_documents env (fs w ++ map_of extracted) filename api_key) elements)
         @ map (text_document filename)
             (split_text env 750 100 (concat (map element_text elements))))"
proof (intro conjI impI)
  let ?R = "process_and_store_document env file_path filename api_key w"
  let ?files = "fs w ++ map_of extracted"
  {
    assume "\<exists>html. Table html \<in> set elements \<and> isl (summarize_table env html api_key)"
    then obtain html where "Table html \<in> set elements" "isl (summarize_table env html api_key)"
      by blast
    from process_elements_abort [OF this, of ?files filename "[]" "[]"]
    obtain h e where h: "Table h \<in> set elements" "summarize_table env h api_key = Inl e"
      "process_elements env ?files filename api_key elements ([], []) = Inl e"
      by blast
    have R: "?R = (Inl e, w\<lparr>fs := ?files\<rparr>)"
      by (simp add: process_and_store_document_def assms h(3))
    show "\<exists>html e. Table html \<in> set elements \<and> summarize_table env html api_key = Inl e \<and>
          fst ?R = Inl e"
      using h R by auto
    show "vstore (snd ?R) = vstore w"
      using R by simp
  }
  {
    assume ok: "(\<forall>html. Table html \<in> set elements \<longrightarrow> \<not> isl (summarize_table env html api_key)) \<and>
      chroma_unavailable env = None \<and> chroma_write_error env = None"
    let ?n = "sanitize_filename_for_collection filename"
    let ?docs = "concat (map (element_documents env ?files filename api_key) elements)
         @ map (text_document filename) (split_text env 750 100 (concat (map element_text elements)))"
    from ok have loop: "process_elements env ?files filename api_key elements ([], []) =
        Inr (concat (map (element_documents env ?files filename api_key) elements),
             concat (map element_text elements))"
      using process_elements_ok [of elements env api_key ?files filename "[]" "[]"] by simp
    from ok obtain vs1 where vs1: "Chroma env (vstore w) ?n = Inr vs1"
      using Chroma_available by blast
    from ok obtain vs2 where vs2: "Chroma_add_documents env vs1 ?n ?docs = Inr vs2"
      and c2: "map entry_document (collection_of vs2 ?n) = map entry_document (collection_of vs1 ?n) @ ?docs"
      using add_documents_ok [of env vs1 ?n ?docs] by blast
    have R: "?R = (Inr PyNone, \<lparr>fs = ?files, vstore = vs2\<rparr>)"
      using ok by (simp add: process_and_store_document_def assms loop Let_def vs1 vs2 Chroma_persist_def)
    show "fst ?R = Inr PyNone" using R by simp
    show "map entry_document (collection_of (vstore (snd ?R)) ?n) =
       map entry_document (collection_of (vstore w) ?n) @ ?docs"
      using R c2 collection_of_Chroma [OF vs1] by simp
  }
qed


theorem ingestion_failures_witness:
  "fst (process_and_store_document env_llm_down ''./uploaded_files/c.pdf'' ''c.pdf'' ''key'' world1)
     = Inl (Exception ''quota exceeded'') \<and>
   vstore (snd (process_and_store_document env_llm_down ''./uploaded_files/c.pdf'' ''c.pdf'' ''key'' world1))
     = vstore world1 \<and>
   fst (process_and_store_document env_doc ''./uploaded_files/c.pdf'' ''c.pdf'' ''key'' world1)
     = Inr PyNone \<and>
   map entry_document
     (collection_of
        (vstore (snd (process_and_store_document env_doc ''./uploaded_files/c.pdf'' ''c.pdf'' ''key'' world1)))
        ''rag_c_pdf'') =
     [table_document ''c.pdf'' ''an answer'',
      image_document ''./uploaded_files/figure-1.jpg'' ''a picture of a chart'',
      image_document ''./uploaded_files/figure-3.jpg'' ''a picture of a map'',
      text_document ''c.pdf'' (''Sales report'' @ nl @ nl)]"
proof -
  let ?els = "[OtherElement ''Sales report'',
       Table ''<table><tr><td>1</td></tr></table>'',
       UnstructuredImage ''./uploaded_files/figure-1.jpg'',
       UnstructuredImage ''./uploaded_files/figure-2.jpg'',
       UnstructuredImage ''./uploaded_files/figure-3.jpg'']"
  let ?ext = "[(''./uploaded_files/figure-1.jpg'', ''a chart''),
       (''./uploaded_files/figure-3.jpg'', ''a map'')]"
  have n: "sanitize_filename_for_collection ''c.pdf'' = ''rag_c_pdf''"
    by (simp add: sanitize_map)
  have fails: "summarize_table env_llm_down h ''key'' = Inl (Exception ''quota exceeded'')" for h
    by (simp add: summarize_table_def env_llm_down_def)
  have works: "summarize_table env_doc h ''key'' = Inr ''an answer''" for h
    by (simp add: summarize_table_def env_doc_def env0_def)
  have hyp1: "\<exists>html. Table html \<in> set ?els \<and> isl (summarize_table env_llm_down html ''key'')"
    by (simp add: fails)
  have hyp2: "(\<forall>html. Table html \<in> set ?els \<longrightarrow> \<not> isl (summarize_table env_doc html ''key'')) \<and>
      chroma_unavailable env_doc = None \<and> chroma_write_error env_doc = None"
  proof -
    have "chroma_unavailable env_doc = None \<and> chroma_write_error env_doc = None"
      by (simp add: env_doc_def env0_def)
    then show ?thesis by (simp add: works)
  qed
  have docs: "concat (map (element_documents env_doc (fs world1 ++ map_of ?ext) ''c.pdf'' ''key'') ?els)
      = [table_document ''c.pdf'' ''an answer'',
         image_document ''./uploaded_files/figure-1.jpg'' ''a picture of a chart'',
         image_document ''./uploaded_files/figure-3.jpg'' ''a picture of a map'']"
    by (simp add: summarize_table_def describe_image_file_def read_file_def
          get_image_description_def world1_def env_doc_def env0_def)
  have chunks: "map (text_document ''c.pdf'') (split_text env_doc 750 100 (concat (map element_text ?els)))
      = [text_document ''c.pdf'' (''Sales report'' @ nl @ nl)]"
    by (simp add: env_doc_def env0_def nl_def)
  have old: "collection_of (vstore world1) ''rag_c_pdf'' = []"
    by (simp add: collection_of_def world1_def store1_def)
  from ingestion_failures [OF world1_read env_llm_down_partition, of "''key''" "''c.pdf''"] hyp1
  have abort: "fst (process_and_store_document env_llm_down ''./uploaded_files/c.pdf'' ''c.pdf'' ''key'' world1)
       = Inl (Exception ''quota exceeded'') \<and>
     vstore (snd (process_and_store_document env_llm_down ''./uploaded_files/c.pdf'' ''c.pdf'' ''key'' world1))
       = vstore world1"
    by (auto simp: fails)
  from ingestion_failures [OF world1_read env_doc_partition, of "''key''" "''c.pdf''"] hyp2
  have "fst (process_and_store_document env_doc ''./uploaded_files/c.pdf'' ''c.pdf'' ''key'' world1)
       = Inr PyNone \<and>
     map entry_document
       (collection_of
          (vstore (snd (process_and_store_document env_doc ''./uploaded_files/c.pdf'' ''c.pdf'' ''key'' world1)))
          (sanitize_filename_for_collection ''c.pdf'')) =
     map entry_document (collection_of (vstore world1) (sanitize_filename_for_collection ''c.pdf''))
       @ concat (map (element_documents env_doc (fs world1 ++ map_of ?ext) ''c.pdf'' ''key'') ?els)
       @ map (text_document ''c.pdf'') (split_text env_doc 750 100 (concat (map element_text ?els)))"
    by blast
  then have stored: "fst (process_and_store_document env_doc ''./uploaded_files/c.pdf'' ''c.pdf'' ''key'' world1)
       = Inr PyNone \<and>
     map entry_document
       (collection_of
          (vstore (snd (process_and_store_document env_doc ''./uploaded_files/c.pdf'' ''c.pdf'' ''key'' world1)))
          ''rag_c_pdf'') =
     [table_document ''c.pdf'' ''an answer'',
      image_document ''./uploaded_files/figure-1.jpg'' ''a picture of a chart'',
      image_document ''./uploaded_files/figure-3.jpg'' ''a picture of a map'',
      text_document ''c.pdf'' (''Sales report'' @ nl @ nl)]"
    by (simp only: n old docs chunks) simp
  from abort stored show ?thesis by blast
qed

section \<open>Properties of the HTTP boundary\<close>

subsection \<open>Uploading\<close>

lemma process_keeps_files:
  "p \<in> dom (fs w) \<Longrightarrow> p \<in> dom (fs (snd (process_and_store_document env fp fn key w)))"
  by (auto simp: process_and_store_document_def Let_def split: sum.splits prod.splits)

lemma upload_success_file:
  assumes "\<not> isl (fst (upload_file env key filename content w))"
  shows "path_join UPLOAD_DIRECTORY filename \<in> dom (fs (snd (upload_file env key filename content w)))"
proof -
  let ?p = "path_join UPLOAD_DIRECTORY filename"
  let ?w1 = "w\<lparr>fs := (fs w)(?p \<mapsto> content)\<rparr>"
  let ?R = "process_and_store_document env ?p filename key ?w1"
  from assms have new: "?p \<notin> dom (fs w)"
    and op: "fs_open_error env ?p = None" and cp: "fs_copy_error env ?p = None"
    by (auto simp: upload_file_def Let_def split: if_splits option.splits)
  have "?p \<in> dom (fs ?w1)" by simp
  then have kept: "?p \<in> dom (fs (snd ?R))" by (rule process_keeps_files)
  obtain r w2 where R: "?R = (r, w2)" by (cases ?R)
  with assms new op cp obtain v where "r = Inr v"
    by (cases r) (auto simp: upload_file_def Let_def split: option.splits)
  with R new op cp have "snd (upload_file env key filename content w) = w2"
    by (auto simp: upload_file_def Let_def)
  with kept R show ?thesis by simp
qed

lemma upload_existing:
  assumes "path_join UPLOAD_DIRECTORY filename \<in> dom (fs w)"
  shows "upload_file env key filename content w =
     (Inl (HTTPException 409 ''File with this name already exists.''), w)"
  using assms by (simp add: upload_file_def)

lemma upload_d:
  "fst (upload_file env_doc ''key'' ''d.pdf'' ''%PDF'' world1) =
     Inr [(''filename'', ''d.pdf''), (''status'', ''Successfully uploaded and processed.'')]"
  by (simp add: upload_file_def process_and_store_document_def path_join_def
        UPLOAD_DIRECTORY_def read_file_def world1_def env_doc_def env0_def Let_def
        summarize_table_def describe_image_file_def get_image_description_def
        Chroma_def Chroma_add_documents_def Chroma_persist_def sanitize_map store1_def)

text \<open>
  Claim C9. An upload under a name whose file is already in the upload directory is
  refused with status 409, and the files and the vector store are left exactly as they
  were, whatever the collaborators would have done: nothing is partitioned, embedded or
  written. After an upload that succeeded, an upload of the same name is one of these.
\<close>

theorem upload_conflict:
  "(path_join UPLOAD_DIRECTORY filename \<in> dom (fs w) \<longrightarrow>
      upload_file env key filename content w =
        (Inl (HTTPException 409 ''File with this name already exists.''), w)) \<and>
   (\<not> isl (fst (upload_file env key filename content w)) \<longrightarrow>
      upload_file env' key' filename content' (snd (upload_file env key filename content w)) =
        (Inl (HTTPException 409 ''File with this name already exists.''),
         snd (upload_file env key filename content w)))"
  using upload_existing upload_success_file by blast

theorem upload_conflict_witness:
  "upload_file env_llm_down ''other key'' ''c.pdf'' ''%PDF-1.7'' world1 =
     (Inl (HTTPException 409 ''File with this name already exists.''), world1) \<and>
   fst (upload_file env_doc ''key'' ''d.pdf'' ''%PDF'' world1) =
     Inr [(''filename'', ''d.pdf''), (''status'', ''Successfully uploaded and processed.'')] \<and>
   fst (upload_file env_doc ''key'' ''d.pdf'' ''%PDF-1.7''
          (snd (upload_file env_doc ''key'' ''d.pdf'' ''%PDF'' world1))) =
     Inl (HTTPException 409 ''File with this name already exists.'')"
proof -
  have there: "path_join UPLOAD_DIRECTORY ''c.pdf'' \<in> dom (fs world1)"
    by (simp add: path_join_def UPLOAD_DIRECTORY_def world1_def)
  have ok: "\<not> isl (fst (upload_file env_doc ''key'' ''d.pdf'' ''%PDF'' world1))"
    by (simp add: upload_d)
  show ?thesis
    using upload_conflict [of "''c.pdf''" world1 env_llm_down "''other key''" "''%PDF-1.7''"]
      upload_conflict [of "''d.pdf''" world1 env_doc "''key''" "''%PDF''" env_doc "''key''" "''%PDF-1.7''"]
      there ok upload_d
    by simp
qed

subsection \<open>Querying\<close>

lemma query_missing:
  assumes "path_join UPLOAD_DIRECTORY filename \<notin> dom (fs w)"
  shows "query_document env filename question key w =
     (Inl (HTTPException 404 ''Document not found.''), w)"
  using assms by (simp add: query_document_def)

lemma delete_success_file:
  assumes "\<not> isl (fst (delete_document env filename w))"
  shows "path_join UPLOAD_DIRECTORY filename \<notin> dom (fs (snd (delete_document env filename w)))"
  using assms
  by (auto simp: delete_document_def Let_def split: if_splits option.splits prod.splits sum.splits)

lemma upload_ingest_failure_file:
  assumes "fst (upload_file env key filename content w) =
     Inl (HTTPException 500 (''Failed to process and ingest document: '' @ m))"
  shows "path_join UPLOAD_DIRECTORY filename \<notin> dom (fs (snd (upload_file env key filename content w)))"
  using assms
  by (auto simp: upload_file_def Let_def split: if_splits option.splits prod.splits sum.splits)

lemma delete_document_ok:
  assumes "path_join UPLOAD_DIRECTORY filename \<in> dom (fs w)"
    and "fs_remove_error env (path_join UPLOAD_DIRECTORY filename) = None"
  shows "\<not> isl (fst (delete_document env filename w))"
proof -
  obtain r vs1 where d: "delete_document_vectors env filename (vstore w) = (r, vs1)"
    by (cases "delete_document_vectors env filename (vstore w)")
  with delete_result [of env filename "vstore w"] have "r = Inr PyNone" by simp
  with d assms show ?thesis
    by (simp add: delete_document_def Let_def)
qed

lemma upload_d_files:
  "fs (snd (upload_file env_doc ''key'' ''d.pdf'' ''%PDF'' world1)) ''./uploaded_files/figure-1.jpg''
     = Some ''a chart'' \<and>
   vstore (snd (upload_file env_doc ''key'' ''d.pdf'' ''%PDF'' world1)) ''rag_figure-1_jpg'' = None"
  by (simp add: upload_file_def process_and_store_document_def path_join_def
        UPLOAD_DIRECTORY_def read_file_def world1_def env_doc_def env0_def Let_def
        summarize_table_def describe_image_file_def get_image_description_def
        Chroma_def Chroma_add_documents_def Chroma_persist_def sanitize_map store1_def)

lemma upload_e:
  "fst (upload_file env_llm_down ''key'' ''e.pdf'' ''%PDF'' world1) =
     Inl (HTTPException 500 (''Failed to process and ingest document: '' @ ''quota exceeded''))"
  by (simp add: upload_file_def process_and_store_document_def path_join_def
        UPLOAD_DIRECTORY_def read_file_def world1_def env_llm_down_def env_doc_def env0_def
        Let_def summarize_table_def)

text \<open>
  Claim C4, as stated, fails. The pipeline's query on a filename that was never
  ingested raises no not-found error. Against an empty store it creates the empty
  collection and ends in the \<^verbatim>\<open>IndexError\<close> of the cross-encoder. Under a name that
  shares its collection with an ingested document (\<open>a pdf\<close> with \<open>a.pdf\<close>) it returns
  an answer, made from that document's chunks. At the HTTP boundary, the name of an
  image file that the partitioner left in the upload directory passes the existence
  check although it was never ingested, and the query ends with status 500, not 404.
\<close>

theorem query_without_not_found:
  "query env0 ''ghost.pdf'' ''What is it?'' ''key'' Map.empty =
     (Inl (Exception ''list index out of range''), Map.empty(''rag_ghost_pdf'' \<mapsto> [])) \<and>
   fst (query env0 ''a pdf'' ''What is it?'' ''key'' store1) = Inr ''an answer'' \<and>
   fst (query_document env_doc ''figure-1.jpg'' ''What is it?'' ''key''
          (snd (upload_file env_doc ''key'' ''d.pdf'' ''%PDF'' world1))) =
     Inl (HTTPException 500 ''Error during query processing: list index out of range'')"
proof -
  have empty: "query env0 ''ghost.pdf'' ''What is it?'' ''key'' Map.empty =
     (Inl (Exception ''list index out of range''), Map.empty(''rag_ghost_pdf'' \<mapsto> []))"
    by (simp add: query_def create_rag_chain_def rag_chain_def Chroma_def sanitize_map Let_def
          collection_of_def rerank_docs_Nil env0_def)
  have shared: "fst (query env0 ''a pdf'' ''What is it?'' ''key'' store1) = Inr ''an answer''"
    by (simp add: query_def create_rag_chain_def rag_chain_def Chroma_def sanitize_map Let_def
          collection_of_def rerank_docs_def predict_def store1_def env0_def
          split: sum.splits)
  have boundary: "fst (query_document env_doc ''figure-1.jpg'' ''What is it?'' ''key''
          (snd (upload_file env_doc ''key'' ''d.pdf'' ''%PDF'' world1))) =
     Inl (HTTPException 500 ''Error during query processing: list index out of range'')"
    using upload_d_files
    by (simp add: query_document_def query_def create_rag_chain_def rag_chain_def Chroma_def
          sanitize_map Let_def collection_of_def rerank_docs_Nil
          env_doc_def env0_def path_join_def UPLOAD_DIRECTORY_def dom_def)
  from empty shared boundary show ?thesis by blast
qed

text \<open>
  Claim C4, amended. The not-found condition is the one of the HTTP boundary, and it is
  about the uploaded file: when no file of that name is in the upload directory the
  query is refused with status 404 and nothing else happens. That is so for a document
  that has just been deleted through the boundary, and for a name whose upload has
  just been refused because its ingestion failed.
\<close>

theorem query_not_found:
  "(path_join UPLOAD_DIRECTORY filename \<notin> dom (fs w) \<longrightarrow>
      query_document env filename question key w =
        (Inl (HTTPException 404 ''Document not found.''), w)) \<and>
   (\<not> isl (fst (delete_document env' filename w)) \<longrightarrow>
      query_document env filename question key (snd (delete_document env' filename w)) =
        (Inl (HTTPException 404 ''Document not found.''), snd (delete_document env' filename w))) \<and>
   (fst (upload_file env' key' filename content w) =
      Inl (HTTPException 500 (''Failed to process and ingest document: '' @ m)) \<longrightarrow>
      query_document env filename question key (snd (upload_file env' key' filename content w)) =
        (Inl (HTTPException 404 ''Document not found.''),
         snd (upload_file env' key' filename content w)))"
  using query_missing delete_success_file upload_ingest_failure_file by blast

theorem query_not_found_witness:
  "query_document env0 ''ghost.pdf'' ''What is it?'' ''key'' world1 =
     (Inl (HTTPException 404 ''Document not found.''), world1) \<and>
   fst (query_document env0 ''c.pdf'' ''What is it?'' ''key'' (snd (delete_document env0 ''c.pdf'' world1))) =
     Inl (HTTPException 404 ''Document not found.'') \<and>
   fst (query_document env0 ''e.pdf'' ''What is it?'' ''key''
          (snd (upload_file env_llm_down ''key'' ''e.pdf'' ''%PDF'' world1))) =
     Inl (HTTPException 404 ''Document not found.'')"
proof -
  have ghost: "path_join UPLOAD_DIRECTORY ''ghost.pdf'' \<notin> dom (fs world1)"
    by (simp add: path_join_def UPLOAD_DIRECTORY_def world1_def)
  have deleted: "\<not> isl (fst (delete_document env0 ''c.pdf'' world1))"
    by (rule delete_document_ok)
       (simp_all add: path_join_def UPLOAD_DIRECTORY_def world1_def env0_def)
  show ?thesis
    using query_not_found [of "''ghost.pdf''" world1 env0 "''What is it?''" "''key''"]
      query_not_found [of "''c.pdf''" world1 env0 "''What is it?''" "''key''" env0]
      query_not_found [of "''e.pdf''" world1 env0 "''What is it?''" "''key''" env_llm_down "''key''"
         "''%PDF''" "''quota exceeded''"]
      ghost deleted upload_e
    by simp
qed

end
